theory Spec2Isabelle
  imports Complex_Main "HOL-Library.AList" "HOL-Library.Sublist"
begin

section \<open>Values of the Meraki client\<close>

text \<open>
  The client works on parsed JSON: \<^verbatim>\<open>response.json()\<close> yields \<^verbatim>\<open>None\<close>, booleans, integers,
  strings, lists and dictionaries with string keys. A dictionary is an association list in
  insertion order; \<open>map_of\<close> is the lookup and \<open>AList.update\<close> is item assignment (an
  existing key keeps its position, a new key goes to the end, as in Python).
  Floating-point numbers are not part of the input values of this model.
\<close>

datatype pyval =
    PNone
  | PBool bool
  | PInt int
  | PStr string
  | PList "pyval list"
  | PDict "(string \<times> pyval) list"

datatype py_error =
    KeyError pyval
  | TypeError
  | AttributeError
  | IndexError
  | ValueError string
  | OSError string

type_synonym 'a result = "py_error + 'a"

subsection \<open>Dynamic operations\<close>

text \<open>Truth value of an object, as used by \<^verbatim>\<open>not x\<close>, \<^verbatim>\<open>if x\<close> and \<^verbatim>\<open>x or y\<close>.\<close>

fun py_truthy :: "pyval \<Rightarrow> bool" where
  "py_truthy PNone = False"
| "py_truthy (PBool b) = b"
| "py_truthy (PInt i) = (i \<noteq> 0)"
| "py_truthy (PStr s) = (s \<noteq> [])"
| "py_truthy (PList xs) = (xs \<noteq> [])"
| "py_truthy (PDict d) = (d \<noteq> [])"

text \<open>\<^verbatim>\<open>for x in v\<close>: a list yields its elements, a string its characters, a dictionary its keys.\<close>

fun py_iter :: "pyval \<Rightarrow> pyval list result" where
  "py_iter (PList xs) = Inr xs"
| "py_iter (PStr s) = Inr (map (\<lambda>c. PStr [c]) s)"
| "py_iter (PDict d) = Inr (map (\<lambda>kv. PStr (fst kv)) d)"
| "py_iter v = Inl TypeError"

text \<open>\<^verbatim>\<open>k in v\<close> for a string \<open>k\<close>: key membership, element membership, or substring test.\<close>

fun py_contains :: "string \<Rightarrow> pyval \<Rightarrow> bool result" where
  "py_contains k (PDict d) = Inr (map_of d k \<noteq> None)"
| "py_contains k (PList xs) = Inr (PStr k \<in> set xs)"
| "py_contains k (PStr s) = Inr (sublist k s)"
| "py_contains k v = Inl TypeError"

text \<open>\<^verbatim>\<open>v[k]\<close> for a string \<open>k\<close>: only a dictionary can be subscripted by a string.\<close>

fun py_getitem :: "pyval \<Rightarrow> string \<Rightarrow> pyval result" where
  "py_getitem (PDict d) k = (case map_of d k of None \<Rightarrow> Inl (KeyError (PStr k)) | Some v \<Rightarrow> Inr v)"
| "py_getitem v k = Inl TypeError"

text \<open>\<^verbatim>\<open>v.copy()\<close>: dictionaries and lists have the method, the other values do not.\<close>

fun py_copy :: "pyval \<Rightarrow> pyval result" where
  "py_copy (PDict d) = Inr (PDict d)"
| "py_copy (PList xs) = Inr (PList xs)"
| "py_copy v = Inl AttributeError"

text \<open>\<^verbatim>\<open>v[k] = x\<close> for a string \<open>k\<close>.\<close>

fun py_setitem :: "pyval \<Rightarrow> string \<Rightarrow> pyval \<Rightarrow> pyval result" where
  "py_setitem (PDict d) k x = Inr (PDict (AList.update k x d))"
| "py_setitem v k x = Inl TypeError"

text \<open>\<^verbatim>\<open>v[0]\<close>. The keys of a parsed JSON object are strings, so \<open>0\<close> is never one of them.\<close>

fun py_first :: "pyval \<Rightarrow> pyval result" where
  "py_first (PList []) = Inl IndexError"
| "py_first (PList (x # xs)) = Inr x"
| "py_first (PStr []) = Inl IndexError"
| "py_first (PStr (c # cs)) = Inr (PStr [c])"
| "py_first (PDict d) = Inl (KeyError (PInt 0))"
| "py_first v = Inl TypeError"

text \<open>\<^verbatim>\<open>len(v)\<close>.\<close>

fun py_len :: "pyval \<Rightarrow> int result" where
  "py_len (PList xs) = Inr (int (length xs))"
| "py_len (PStr s) = Inr (int (length s))"
| "py_len (PDict d) = Inr (int (length d))"
| "py_len v = Inl TypeError"

text \<open>\<^verbatim>\<open>x or y\<close>.\<close>

definition py_or :: "pyval \<Rightarrow> pyval \<Rightarrow> pyval" where
  "py_or x y = (if py_truthy x then x else y)"

subsection \<open>Dictionaries keyed by values\<close>

text \<open>
  \<^verbatim>\<open>status_lookup\<close> is keyed by whatever the \<^verbatim>\<open>serial\<close> fields hold. Lists and dictionaries
  are unhashable, and a key is found by hash and \<^verbatim>\<open>==\<close>, under which \<^verbatim>\<open>True == 1\<close> and
  \<^verbatim>\<open>False == 0\<close>: \<open>key_of\<close> picks one representative of each class of equal keys.
\<close>

fun hashable :: "pyval \<Rightarrow> bool" where
  "hashable (PList xs) = False"
| "hashable (PDict d) = False"
| "hashable v = True"

fun key_of :: "pyval \<Rightarrow> pyval" where
  "key_of (PBool b) = PInt (if b then 1 else 0)"
| "key_of v = v"

type_synonym lookup = "(pyval \<times> pyval) list"

definition lookup_set :: "lookup \<Rightarrow> pyval \<Rightarrow> pyval \<Rightarrow> lookup result" where
  "lookup_set lk k v = (if hashable k then Inr (AList.update (key_of k) v lk) else Inl TypeError)"

definition lookup_get :: "lookup \<Rightarrow> pyval \<Rightarrow> pyval \<Rightarrow> pyval result" where
  "lookup_get lk k dflt =
     (if hashable k then
        (case map_of lk (key_of k) of None \<Rightarrow> Inr dflt | Some v \<Rightarrow> Inr v)
      else Inl TypeError)"

section \<open>Merging inventory and status\<close>

text \<open>
  \<^verbatim>\<open>status_lookup = {s['serial']: s['status'] for s in statuses if 'serial' in s}\<close>:
  one step of the comprehension, then the comprehension over the elements in order.
\<close>

definition status_entry :: "lookup \<Rightarrow> pyval \<Rightarrow> lookup result" where
  "status_entry lk s =
     (case py_contains ''serial'' s of
        Inl e \<Rightarrow> Inl e
      | Inr False \<Rightarrow> Inr lk
      | Inr True \<Rightarrow>
          (case py_getitem s ''serial'' of
             Inl e \<Rightarrow> Inl e
           | Inr k \<Rightarrow>
               (case py_getitem s ''status'' of
                  Inl e \<Rightarrow> Inl e
                | Inr v \<Rightarrow> lookup_set lk k v)))"

fun status_lookup :: "lookup \<Rightarrow> pyval list \<Rightarrow> lookup result" where
  "status_lookup lk [] = Inr lk"
| "status_lookup lk (s # ss) =
     (case status_entry lk s of
        Inl e \<Rightarrow> Inl e
      | Inr lk' \<Rightarrow> status_lookup lk' ss)"

text \<open>
  The body of the loop over the devices:
  \<^verbatim>\<open>device_info = device.copy()\<close>,
  \<^verbatim>\<open>device_info['status'] = status_lookup.get(device['serial'], 'unknown')\<close>.
\<close>

definition device_info :: "lookup \<Rightarrow> pyval \<Rightarrow> pyval result" where
  "device_info lk device =
     (case py_copy device of
        Inl e \<Rightarrow> Inl e
      | Inr info \<Rightarrow>
          (case py_getitem device ''serial'' of
             Inl e \<Rightarrow> Inl e
           | Inr k \<Rightarrow>
               (case lookup_get lk k (PStr ''unknown'') of
                  Inl e \<Rightarrow> Inl e
                | Inr v \<Rightarrow> py_setitem info ''status'' v)))"

fun detailed_loop :: "lookup \<Rightarrow> pyval list \<Rightarrow> pyval list \<Rightarrow> pyval list result" where
  "detailed_loop lk [] detailed_devices = Inr detailed_devices"
| "detailed_loop lk (device # devices) detailed_devices =
     (case device_info lk device of
        Inl e \<Rightarrow> Inl e
      | Inr info \<Rightarrow> detailed_loop lk devices (detailed_devices @ [info]))"

definition get_device_details :: "pyval \<Rightarrow> pyval \<Rightarrow> pyval list result" where
  "get_device_details devices statuses =
     (case py_iter statuses of
        Inl e \<Rightarrow> Inl e
      | Inr ss \<Rightarrow>
          (case status_lookup [] ss of
             Inl e \<Rightarrow> Inl e
           | Inr lk \<Rightarrow>
               (case py_iter devices of
                  Inl e \<Rightarrow> Inl e
                | Inr ds \<Rightarrow> detailed_loop lk ds [])))"

section \<open>The report\<close>

text \<open>
  The availability percentage is a Python float. The three float operations that compute it
  (\<^verbatim>\<open>int / int\<close>, \<^verbatim>\<open>float * int\<close>, \<^verbatim>\<open>round(float, ndigits)\<close>) and the type \<open>'f\<close> of floats
  are parameters of the model, carried by the \<open>world\<close> below.
\<close>

datatype 'f number = NInt int | NFloat 'f

record 'f summary =
  total_devices :: int
  online_devices :: int
  offline_devices :: int
  availability_percentage :: "'f number"

record 'f report =
  timestamp :: string
  organization :: pyval
  network :: pyval
  summary :: "'f summary"
  devices :: "pyval list"

section \<open>The world outside the program\<close>

text \<open>
  An f-string is kept as its pieces, literal text and the values formatted into it.
  The effects of a run are the events it emits, in order: lines printed, HTTP requests sent,
  files opened for writing. What the environment, the server, the file system and the clock
  answer is given by a \<open>world\<close>; during one run no URL is requested twice and no file is
  written twice, so each answer is a function of the request.
\<close>

datatype 'f piece = Lit string | Val pyval | Num "'f number" | Exc py_error

type_synonym 'f fstring = "'f piece list"

datatype 'f saved = Json pyval | Report "'f report"

datatype 'f event =
    Print "'f fstring"
  | HttpGet "'f fstring" "(string \<times> string) list"
  | FileWrite string "'f saved"

text \<open>
  \<^verbatim>\<open>requests.get\<close>, \<^verbatim>\<open>raise_for_status\<close> and \<^verbatim>\<open>response.json()\<close> together either raise (the
  three classes \<^verbatim>\<open>make_api_request\<close> tells apart, with the exception's text) or give the body.
\<close>

datatype http_outcome =
    HTTPError string
  | RequestException string
  | OtherException string
  | Body pyval

datatype io_outcome = Written | OpenFailed string | WriteFailed string

record 'f world =
  getenv :: "string \<Rightarrow> string option"
  http_get :: "'f fstring \<Rightarrow> (string \<times> string) list \<Rightarrow> http_outcome"
  file_write :: "string \<Rightarrow> 'f saved \<Rightarrow> io_outcome"
  now_isoformat :: string
  float_div :: "int \<Rightarrow> int \<Rightarrow> 'f"
  float_mul :: "'f \<Rightarrow> int \<Rightarrow> 'f"
  float_round :: "'f \<Rightarrow> int \<Rightarrow> 'f"

text \<open>A computation returns a value or raises, and emits events on the way.\<close>

type_synonym ('f, 'a) io = "'a result \<times> 'f event list"

definition io_bind :: "('f, 'a) io \<Rightarrow> ('a \<Rightarrow> ('f, 'b) io) \<Rightarrow> ('f, 'b) io" where
  "io_bind m k =
     (case m of
        (Inl e, t) \<Rightarrow> (Inl e, t)
      | (Inr x, t) \<Rightarrow> (case k x of (r, t') \<Rightarrow> (r, t @ t')))"

definition io_lift :: "'a result \<Rightarrow> ('f, 'a) io" where
  "io_lift r = (r, [])"

definition io_print :: "'f fstring \<Rightarrow> ('f, unit) io" where
  "io_print s = (Inr (), [Print s])"

section \<open>Authentication\<close>

definition get_api_key :: "'f world \<Rightarrow> string result" where
  "get_api_key w =
     (case getenv w ''MERAKI_API_KEY'' of
        None \<Rightarrow> Inl (ValueError ''MERAKI_API_KEY not found in environment variables'')
      | Some api_key \<Rightarrow>
          if api_key = [] then
            Inl (ValueError ''MERAKI_API_KEY not found in environment variables'')
          else Inr api_key)"

definition get_headers :: "'f world \<Rightarrow> (string \<times> string) list result" where
  "get_headers w =
     (case get_api_key w of
        Inl e \<Rightarrow> Inl e
      | Inr api_key \<Rightarrow>
          Inr [(''X-Cisco-Meraki-API-Key'', api_key), (''Content-Type'', ''application/json'')])"

section \<open>Requests and fetchers\<close>

text \<open>
  The headers are an argument of \<^verbatim>\<open>requests.get\<close>, so \<^verbatim>\<open>get_headers()\<close> runs, and may raise,
  before the request is sent; its \<^verbatim>\<open>ValueError\<close> is caught by the last handler.
\<close>

definition make_api_request :: "'f world \<Rightarrow> 'f fstring \<Rightarrow> ('f, pyval) io" where
  "make_api_request w endpoint =
     (let url = Lit ''https://api.meraki.com/api/v1'' # endpoint in
      case get_headers w of
        Inl err \<Rightarrow> (Inr PNone, [Print [Lit ''Unexpected error: '', Exc err]])
      | Inr headers \<Rightarrow>
          (case http_get w url headers of
             Body json \<Rightarrow> (Inr json, [HttpGet url headers])
           | HTTPError http_err \<Rightarrow>
               (Inr PNone, [HttpGet url headers, Print [Lit ''HTTP error occurred: '', Lit http_err]])
           | RequestException req_err \<Rightarrow>
               (Inr PNone, [HttpGet url headers, Print [Lit ''Request error occurred: '', Lit req_err]])
           | OtherException err \<Rightarrow>
               (Inr PNone, [HttpGet url headers, Print [Lit ''Unexpected error: '', Lit err]])))"

definition or_empty_list :: "('f, pyval) io \<Rightarrow> ('f, pyval) io" where
  "or_empty_list m = io_bind m (\<lambda>r. io_lift (Inr (py_or r (PList []))))"

definition get_organizations :: "'f world \<Rightarrow> ('f, pyval) io" where
  "get_organizations w = or_empty_list (make_api_request w [Lit ''/organizations''])"

definition get_networks :: "'f world \<Rightarrow> pyval \<Rightarrow> ('f, pyval) io" where
  "get_networks w org_id =
     or_empty_list (make_api_request w [Lit ''/organizations/'', Val org_id, Lit ''/networks''])"

definition get_network_inventory :: "'f world \<Rightarrow> pyval \<Rightarrow> ('f, pyval) io" where
  "get_network_inventory w network_id =
     or_empty_list (make_api_request w [Lit ''/networks/'', Val network_id, Lit ''/devices''])"

definition get_device_availabilities :: "'f world \<Rightarrow> pyval \<Rightarrow> pyval \<Rightarrow> ('f, pyval) io" where
  "get_device_availabilities w network_id serial =
     or_empty_list (make_api_request w
       [Lit ''/networks/'', Val network_id, Lit ''/devices/'', Val serial, Lit ''/availabilities''])"

definition get_device_statuses :: "'f world \<Rightarrow> pyval \<Rightarrow> ('f, pyval) io" where
  "get_device_statuses w org_id =
     or_empty_list (make_api_request w
       [Lit ''/organizations/'', Val org_id, Lit ''/devices/statuses''])"

section \<open>Persistence\<close>

text \<open>The \<^verbatim>\<open>with open(filename, 'w') as f: json.dump(data, f, indent=2)\<close> block.\<close>

definition write_json :: "'f world \<Rightarrow> string \<Rightarrow> 'f saved \<Rightarrow> ('f, unit) io" where
  "write_json w filename data =
     (case file_write w filename data of
        Written \<Rightarrow> (Inr (), [FileWrite filename data])
      | OpenFailed msg \<Rightarrow> (Inl (OSError msg), [FileWrite filename data])
      | WriteFailed msg \<Rightarrow> (Inl (OSError msg), [FileWrite filename data]))"

definition save_to_file :: "'f world \<Rightarrow> 'f saved \<Rightarrow> string \<Rightarrow> ('f, bool) io" where
  "save_to_file w data filename =
     (case write_json w filename data of
        (Inr u, t) \<Rightarrow> (Inr True, t @ [Print [Lit ''Data saved to '', Lit filename]])
      | (Inl e, t) \<Rightarrow>
          (Inr False, t @ [Print [Lit ''Error saving to '', Lit filename, Lit '': '', Exc e]]))"

section \<open>Report generation\<close>

text \<open>\<^verbatim>\<open>sum(1 for d in detailed_devices if d['status'] == st)\<close>, with the running total.\<close>

fun count_status :: "string \<Rightarrow> pyval list \<Rightarrow> int \<Rightarrow> int result" where
  "count_status st [] n = Inr n"
| "count_status st (d # ds) n =
     (case py_getitem d ''status'' of
        Inl e \<Rightarrow> Inl e
      | Inr v \<Rightarrow> count_status st ds (if v = PStr st then n + 1 else n))"

definition generate_network_report ::
  "'f world \<Rightarrow> pyval \<Rightarrow> pyval \<Rightarrow> pyval \<Rightarrow> pyval \<Rightarrow> 'f report result" where
  "generate_network_report w org_name network_name devices' statuses =
     (case get_device_details devices' statuses of
        Inl e \<Rightarrow> Inl e
      | Inr detailed_devices \<Rightarrow>
          (let total_n = int (length detailed_devices) in
           case count_status ''online'' detailed_devices 0 of
             Inl e \<Rightarrow> Inl e
           | Inr online \<Rightarrow>
               (case count_status ''offline'' detailed_devices 0 of
                  Inl e \<Rightarrow> Inl e
                | Inr offline \<Rightarrow>
                    Inr \<lparr>timestamp = now_isoformat w,
                         organization = org_name,
                         network = network_name,
                         summary =
                           \<lparr>total_devices = total_n,
                            online_devices = online,
                            offline_devices = offline,
                            availability_percentage =
                              (if total_n > 0 then
                                 NFloat (float_round w (float_mul w (float_div w online total_n) 100) 2)
                               else NInt 0)\<rparr>,
                         devices = detailed_devices\<rparr>)))"

section \<open>The orchestrator\<close>

text \<open>
  \<^verbatim>\<open>main\<close> is one \<^verbatim>\<open>try\<close> block. It is cut at the points where a fetch has just returned:
  each part below is the rest of the block from that point on, given the variables bound so
  far. An early \<^verbatim>\<open>return\<close> ends the block normally.
\<close>

definition main_statuses ::
  "'f world \<Rightarrow> pyval \<Rightarrow> pyval \<Rightarrow> pyval \<Rightarrow> pyval \<Rightarrow> ('f, unit) io" where
  "main_statuses w first_org first_network devices' statuses =
     (if py_truthy statuses then
        io_bind (io_print [Lit (CHR 0x0A # ''Generating network report...'')]) (\<lambda>_.
        io_bind (io_lift (py_getitem first_org ''name'')) (\<lambda>org_name.
        io_bind (io_lift (py_getitem first_network ''name'')) (\<lambda>network_name.
        io_bind (io_lift (generate_network_report w org_name network_name devices' statuses))
          (\<lambda>report.
        io_bind (save_to_file w (Report report) ''network_report.json'') (\<lambda>_.
        io_bind (io_print [Lit (CHR 0x0A # ''Network Report Summary:'')]) (\<lambda>_.
        io_bind (io_print [Lit ''  Organization: '', Val (organization report)]) (\<lambda>_.
        io_bind (io_print [Lit ''  Network: '', Val (network report)]) (\<lambda>_.
        io_bind (io_print [Lit ''  Total Devices: '',
                           Num (NInt (total_devices (summary report)))]) (\<lambda>_.
        io_bind (io_print [Lit ''  Online: '',
                           Num (NInt (online_devices (summary report)))]) (\<lambda>_.
        io_bind (io_print [Lit ''  Offline: '',
                           Num (NInt (offline_devices (summary report)))]) (\<lambda>_.
        io_print [Lit ''  Availability: '',
                  Num (availability_percentage (summary report)), Lit ''%''])))))))))))
      else io_print [Lit ''Unable to retrieve device status information.''])"

definition main_devices :: "'f world \<Rightarrow> pyval \<Rightarrow> pyval \<Rightarrow> pyval \<Rightarrow> ('f, unit) io" where
  "main_devices w first_org first_network devices' =
     io_bind (io_lift (py_len devices')) (\<lambda>n.
     io_bind (io_print [Lit ''Devices: '', Num (NInt n), Lit '' found'']) (\<lambda>_.
     io_bind (save_to_file w (Json devices') ''devices.json'') (\<lambda>_.
     io_bind (io_print [Lit (CHR 0x0A # ''Fetching device status information...'')]) (\<lambda>_.
     io_bind (io_lift (py_getitem first_org ''id'')) (\<lambda>org_id.
     io_bind (get_device_statuses w org_id) (\<lambda>statuses.
     main_statuses w first_org first_network devices' statuses))))))"

definition main_networks :: "'f world \<Rightarrow> pyval \<Rightarrow> pyval \<Rightarrow> ('f, unit) io" where
  "main_networks w first_org networks =
     (if \<not> py_truthy networks then io_print [Lit ''No networks found.'']
      else
        io_bind (save_to_file w (Json networks) ''networks.json'') (\<lambda>_.
        io_bind (io_lift (py_first networks)) (\<lambda>first_network.
        io_bind (io_lift (py_getitem first_network ''name'')) (\<lambda>network_name.
        io_bind (io_print [Lit ''Network: '', Val network_name]) (\<lambda>_.
        io_bind (io_lift (py_getitem first_network ''id'')) (\<lambda>network_id.
        io_bind (get_network_inventory w network_id) (\<lambda>devices'.
        main_devices w first_org first_network devices')))))))"

definition main_organizations :: "'f world \<Rightarrow> pyval \<Rightarrow> ('f, unit) io" where
  "main_organizations w organizations =
     (if \<not> py_truthy organizations then
        io_print [Lit ''No organizations found or API error occurred.'']
      else
        io_bind (save_to_file w (Json organizations) ''organizations.json'') (\<lambda>_.
        io_bind (io_lift (py_first organizations)) (\<lambda>first_org.
        io_bind (io_lift (py_getitem first_org ''name'')) (\<lambda>org_name.
        io_bind (io_print [Lit ''Organization: '', Val org_name]) (\<lambda>_.
        io_bind (io_lift (py_getitem first_org ''id'')) (\<lambda>org_id.
        io_bind (get_networks w org_id) (\<lambda>networks.
        main_networks w first_org networks)))))))"

definition main_try :: "'f world \<Rightarrow> ('f, unit) io" where
  "main_try w =
     io_bind (io_print [Lit ''Fetching Meraki organization data...'']) (\<lambda>_.
     io_bind (get_organizations w) (\<lambda>organizations.
     main_organizations w organizations))"

text \<open>
  \<^verbatim>\<open>except Exception as e: print(f"Error: {e}")\<close>: \<^verbatim>\<open>main\<close> itself never raises, and what a
  run does is the list of its events.
\<close>

definition main :: "'f world \<Rightarrow> 'f event list" where
  "main w =
     (case main_try w of
        (Inl e, t) \<Rightarrow> t @ [Print [Lit ''Error: '', Exc e]]
      | (Inr u, t) \<Rightarrow> t)"

section \<open>Vocabulary of the properties\<close>

text \<open>
  Device and status records are dictionaries; \<open>dict_list\<close> is a list of them as the
  functions receive it.
\<close>

type_synonym pydict = "(string \<times> pyval) list"

definition dict_list :: "pydict list \<Rightarrow> pyval" where
  "dict_list ds = PList (map PDict ds)"

text \<open>The key under which a record's serial is stored and found, if it has a serial.\<close>

definition serial_key :: "pydict \<Rightarrow> pyval option" where
  "serial_key s = map_option key_of (map_of s ''serial'')"

text \<open>Status record \<open>s\<close> carries the serial of device \<open>d\<close> (equal as Python values).\<close>

definition same_serial :: "pydict \<Rightarrow> pydict \<Rightarrow> bool" where
  "same_serial d s =
     (case map_of d ''serial'' of
        None \<Rightarrow> False
      | Some k \<Rightarrow> (case map_of s ''serial'' of None \<Rightarrow> False | Some k' \<Rightarrow> key_of k' = key_of k))"

text \<open>
  Every device has the key \<^verbatim>\<open>serial\<close>, and every status record that has \<^verbatim>\<open>serial\<close> has
  \<^verbatim>\<open>status\<close> too.
\<close>

definition required_keys :: "pydict list \<Rightarrow> pydict list \<Rightarrow> bool" where
  "required_keys ds ss =
     (list_all (\<lambda>d. map_of d ''serial'' \<noteq> None) ds \<and>
      list_all (\<lambda>s. map_of s ''serial'' \<noteq> None \<longrightarrow> map_of s ''status'' \<noteq> None) ss)"

text \<open>No \<^verbatim>\<open>serial\<close> field, of a device or of a status record, holds a list or a dictionary.\<close>

definition serials_hashable :: "pydict list \<Rightarrow> pydict list \<Rightarrow> bool" where
  "serials_hashable ds ss =
     list_all (\<lambda>r. case map_of r ''serial'' of None \<Rightarrow> True | Some k \<Rightarrow> hashable k) (ds @ ss)"

text \<open>A status record without the key \<^verbatim>\<open>serial\<close>.\<close>

definition lacks_serial :: "pyval \<Rightarrow> bool" where
  "lacks_serial x = (case x of PDict s \<Rightarrow> map_of s ''serial'' = None | _ \<Rightarrow> False)"

definition status_ok :: "pydict \<Rightarrow> bool" where
  "status_ok s =
     (case map_of s ''serial'' of
        None \<Rightarrow> True
      | Some k \<Rightarrow> hashable k \<and> map_of s ''status'' \<noteq> None)"

definition device_ok :: "pydict \<Rightarrow> bool" where
  "device_ok d = (case map_of d ''serial'' of None \<Rightarrow> False | Some k \<Rightarrow> hashable k)"

text \<open>The output record of a device with a hashable serial, given the finished lookup table.\<close>

definition with_status :: "lookup \<Rightarrow> pydict \<Rightarrow> pyval" where
  "with_status lk d =
     PDict (AList.update ''status''
       (case map_of lk (the (serial_key d)) of None \<Rightarrow> PStr ''unknown'' | Some v \<Rightarrow> v) d)"

text \<open>The events that are HTTP requests, and those that open a file for writing.\<close>

definition is_request :: "'f event \<Rightarrow> bool" where
  "is_request ev = (case ev of HttpGet url headers \<Rightarrow> True | _ \<Rightarrow> False)"

definition is_save :: "'f event \<Rightarrow> bool" where
  "is_save ev = (case ev of FileWrite filename data \<Rightarrow> True | _ \<Rightarrow> False)"

subsection \<open>Example worlds\<close>

text \<open>
  Concrete worlds on which the properties below are run: an environment with and without
  the API key, a server with one organization and one network that has no devices, a server
  that answers every request with an empty JSON object, a server whose organization has no
  networks, a server that has no statuses, a disk with one directory that
  cannot be written, and floats taken as exact rationals.
\<close>

definition key_env :: "string \<Rightarrow> string option" where
  "key_env name = (if name = ''MERAKI_API_KEY'' then Some ''0123abcd'' else None)"

definition empty_env :: "string \<Rightarrow> string option" where
  "empty_env name = None"

definition demo_server :: "rat fstring \<Rightarrow> (string \<times> string) list \<Rightarrow> http_outcome" where
  "demo_server url headers =
     (if url = [Lit ''https://api.meraki.com/api/v1'', Lit ''/organizations''] then
        Body (PList [PDict [(''id'', PStr ''1''), (''name'', PStr ''Org'')]])
      else if url = [Lit ''https://api.meraki.com/api/v1'',
                     Lit ''/organizations/'', Val (PStr ''1''), Lit ''/networks''] then
        Body (PList [PDict [(''id'', PStr ''N1''), (''name'', PStr ''Net'')]])
      else if url = [Lit ''https://api.meraki.com/api/v1'',
                     Lit ''/networks/'', Val (PStr ''N1''), Lit ''/devices''] then
        Body (PList [])
      else if url = [Lit ''https://api.meraki.com/api/v1'',
                     Lit ''/organizations/'', Val (PStr ''1''), Lit ''/devices/statuses''] then
        Body (PList [PDict [(''serial'', PStr ''A''), (''status'', PStr ''online'')]])
      else HTTPError ''404 Client Error'')"

definition empty_object_server :: "rat fstring \<Rightarrow> (string \<times> string) list \<Rightarrow> http_outcome" where
  "empty_object_server url headers = Body (PDict [])"

definition no_networks_server :: "rat fstring \<Rightarrow> (string \<times> string) list \<Rightarrow> http_outcome" where
  "no_networks_server url headers =
     (if url = [Lit ''https://api.meraki.com/api/v1'', Lit ''/organizations''] then
        Body (PList [PDict [(''id'', PStr ''1''), (''name'', PStr ''Org'')]])
      else if url = [Lit ''https://api.meraki.com/api/v1'',
                     Lit ''/organizations/'', Val (PStr ''1''), Lit ''/networks''] then
        Body (PList [])
      else HTTPError ''404 Client Error'')"

definition no_statuses_server :: "rat fstring \<Rightarrow> (string \<times> string) list \<Rightarrow> http_outcome" where
  "no_statuses_server url headers =
     (if url = [Lit ''https://api.meraki.com/api/v1'', Lit ''/organizations''] then
        Body (PList [PDict [(''id'', PStr ''1''), (''name'', PStr ''Org'')]])
      else if url = [Lit ''https://api.meraki.com/api/v1'',
                     Lit ''/organizations/'', Val (PStr ''1''), Lit ''/networks''] then
        Body (PList [PDict [(''id'', PStr ''N1''), (''name'', PStr ''Net'')]])
      else if url = [Lit ''https://api.meraki.com/api/v1'',
                     Lit ''/networks/'', Val (PStr ''N1''), Lit ''/devices''] then
        Body (PList [PDict [(''serial'', PStr ''A''), (''model'', PStr ''X'')]])
      else if url = [Lit ''https://api.meraki.com/api/v1'',
                     Lit ''/organizations/'', Val (PStr ''1''), Lit ''/devices/statuses''] then
        Body (PList [])
      else HTTPError ''404 Client Error'')"

definition demo_disk :: "string \<Rightarrow> rat saved \<Rightarrow> io_outcome" where
  "demo_disk filename data =
     (if filename = ''/readonly/out.json'' then OpenFailed ''Permission denied'' else Written)"

definition exact_div :: "int \<Rightarrow> int \<Rightarrow> rat" where
  "exact_div a b = of_int a / of_int b"

definition exact_mul :: "rat \<Rightarrow> int \<Rightarrow> rat" where
  "exact_mul x n = x * of_int n"

definition exact_round :: "rat \<Rightarrow> int \<Rightarrow> rat" where
  "exact_round x n = of_int (round (x * 10 ^ nat n)) / 10 ^ nat n"

definition demo_world ::
  "(string \<Rightarrow> string option) \<Rightarrow> (rat fstring \<Rightarrow> (string \<times> string) list \<Rightarrow> http_outcome) \<Rightarrow> rat world" where
  "demo_world env server =
     \<lparr>getenv = env, http_get = server, file_write = demo_disk,
      now_isoformat = ''2024-05-01T12:00:00'',
      float_div = exact_div, float_mul = exact_mul, float_round = exact_round\<rparr>"

section \<open>The merge on lists of records\<close>

lemma status_entry_dict:
  "status_entry lk (PDict s) =
     (case map_of s ''serial'' of
        None \<Rightarrow> Inr lk
      | Some k \<Rightarrow>
          (case map_of s ''status'' of
             None \<Rightarrow> Inl (KeyError (PStr ''status''))
           | Some v \<Rightarrow> if hashable k then Inr (AList.update (key_of k) v lk) else Inl TypeError))"
  by (auto simp: status_entry_def lookup_set_def split: option.splits)

lemma device_info_dict:
  "device_info lk (PDict d) =
     (case map_of d ''serial'' of
        None \<Rightarrow> Inl (KeyError (PStr ''serial''))
      | Some k \<Rightarrow>
          if hashable k then
            Inr (PDict (AList.update ''status''
                   (case map_of lk (key_of k) of None \<Rightarrow> PStr ''unknown'' | Some v \<Rightarrow> v) d))
          else Inl TypeError)"
  by (auto simp: device_info_def lookup_get_def split: option.splits)

lemma status_lookup_ok:
  "(\<exists>lk'. status_lookup lk (map PDict ss) = Inr lk') \<longleftrightarrow> list_all status_ok ss"
  by (induction ss arbitrary: lk)
     (auto simp: status_entry_dict status_ok_def split: option.splits sum.splits)

text \<open>The table maps a key to the status of the last record stored under it.\<close>

lemma status_lookup_last:
  "status_lookup lk (map PDict ss) = Inr lk' \<Longrightarrow>
   map_of lk' q = (case filter (\<lambda>s. serial_key s = Some q) ss of
                     [] \<Rightarrow> map_of lk q
                   | m # ms \<Rightarrow> map_of (last (m # ms)) ''status'')"
proof (induction ss arbitrary: lk)
  case Nil
  then show ?case by simp
next
  case (Cons s ss)
  from Cons.prems obtain lk1 where
    e: "status_entry lk (PDict s) = Inr lk1" and r: "status_lookup lk1 (map PDict ss) = Inr lk'"
    by (auto split: sum.splits)
  note ih = Cons.IH [OF r]
  show ?case
  proof (cases "serial_key s = Some q")
    case True
    with e have "map_of lk1 q = map_of s ''status''"
      by (auto simp: status_entry_dict serial_key_def update_conv' split: option.splits if_splits)
    with True ih show ?thesis by (auto split: list.splits)
  next
    case False
    with e have "map_of lk1 q = map_of lk q"
      by (auto simp: status_entry_dict serial_key_def update_conv' split: option.splits if_splits)
    with False ih show ?thesis by (auto split: list.splits)
  qed
qed

lemma detailed_loop_dicts:
  "list_all device_ok ds \<Longrightarrow>
   detailed_loop lk (map PDict ds) acc = Inr (acc @ map (with_status lk) ds)"
  by (induction ds arbitrary: acc)
     (auto simp: device_info_dict device_ok_def with_status_def serial_key_def split: option.splits)

lemma detailed_loop_fail:
  "\<not> list_all device_ok ds \<Longrightarrow> \<exists>e. detailed_loop lk (map PDict ds) acc = Inl e"
  by (induction ds arbitrary: acc)
     (auto simp: device_info_dict device_ok_def split: option.splits)

lemma ok_iff:
  "list_all status_ok ss \<and> list_all device_ok ds \<longleftrightarrow> required_keys ds ss \<and> serials_hashable ds ss"
  by (auto simp: required_keys_def serials_hashable_def status_ok_def device_ok_def list_all_iff
       split: option.splits)

text \<open>When the merge of two lists of records returns, and what it returns.\<close>

lemma get_device_details_dicts:
  "get_device_details (dict_list ds) (dict_list ss) = Inr R \<longleftrightarrow>
     required_keys ds ss \<and> serials_hashable ds ss \<and>
     (\<exists>lk. status_lookup [] (map PDict ss) = Inr lk \<and> R = map (with_status lk) ds)"
proof (cases "list_all status_ok ss")
  case False
  with status_lookup_ok [of "[]" ss] have "\<exists>e. status_lookup [] (map PDict ss) = Inl e"
    by (cases "status_lookup [] (map PDict ss)") auto
  with False ok_iff [of ss ds] show ?thesis
    by (auto simp: get_device_details_def dict_list_def)
next
  case True
  with status_lookup_ok [of "[]" ss] obtain lk where lk: "status_lookup [] (map PDict ss) = Inr lk"
    by auto
  show ?thesis
  proof (cases "list_all device_ok ds")
    case ok: True
    with True ok_iff [of ss ds] lk detailed_loop_dicts [of ds lk "[]"] show ?thesis
      by (auto simp: get_device_details_def dict_list_def)
  next
    case bad: False
    with detailed_loop_fail [of ds lk "[]"] ok_iff [of ss ds] lk show ?thesis
      by (auto simp: get_device_details_def dict_list_def)
  qed
qed

lemma get_device_details_total:
  "required_keys ds ss \<Longrightarrow> serials_hashable ds ss \<Longrightarrow>
   \<exists>R. get_device_details (dict_list ds) (dict_list ss) = Inr R"
  using status_lookup_ok [of "[]" ss] ok_iff [of ss ds] by (auto simp: get_device_details_dicts)

lemma filter_update_other:
  "filter (\<lambda>kv. fst kv \<noteq> k) (AList.update k v d) = filter (\<lambda>kv. fst kv \<noteq> k) d"
  by (induction d) auto

lemma same_serial_key:
  "map_of d ''serial'' = Some k \<Longrightarrow> same_serial d s \<longleftrightarrow> serial_key s = Some (key_of k)"
  by (auto simp: same_serial_def serial_key_def split: option.splits)

text \<open>
  The status a device receives: \<^verbatim>\<open>unknown\<close> without a matching record, otherwise the status
  of the last matching record, which has one.
\<close>

lemma get_device_details_status:
  assumes "get_device_details (dict_list ds) (dict_list ss) = Inr R" and "i < length ds"
  shows "py_getitem (R ! i) ''status'' =
           (case filter (same_serial (ds ! i)) ss of
              [] \<Rightarrow> Inr (PStr ''unknown'')
            | m # ms \<Rightarrow> py_getitem (PDict (last (m # ms))) ''status'')"
    and "filter (same_serial (ds ! i)) ss \<noteq> [] \<Longrightarrow>
           map_of (last (filter (same_serial (ds ! i)) ss)) ''status'' \<noteq> None"
proof -
  from assms(1) obtain lk where
    rk: "required_keys ds ss" and lk: "status_lookup [] (map PDict ss) = Inr lk"
    and R: "R = map (with_status lk) ds"
    by (auto simp: get_device_details_dicts)
  from rk assms(2) obtain k where k: "map_of (ds ! i) ''serial'' = Some k"
    by (auto simp: required_keys_def list_all_length)
  have f: "filter (same_serial (ds ! i)) ss = filter (\<lambda>s. serial_key s = Some (key_of k)) ss"
    by (rule filter_cong) (simp_all add: same_serial_key [OF k])
  have st: "R ! i = PDict (AList.update ''status''
       (case map_of lk (key_of k) of None \<Rightarrow> PStr ''unknown'' | Some v \<Rightarrow> v) (ds ! i))"
    using R assms(2) k by (simp add: with_status_def serial_key_def)
  note l = status_lookup_last [OF lk, of "key_of k"]
  have ms: "map_of (last (filter (same_serial (ds ! i)) ss)) ''status'' \<noteq> None"
    if ne: "filter (same_serial (ds ! i)) ss \<noteq> []"
  proof -
    from ne have "last (filter (same_serial (ds ! i)) ss) \<in> set (filter (same_serial (ds ! i)) ss)"
      by (rule last_in_set)
    then have m: "last (filter (same_serial (ds ! i)) ss) \<in> set ss"
      and s: "same_serial (ds ! i) (last (filter (same_serial (ds ! i)) ss))" by auto
    from s have "map_of (last (filter (same_serial (ds ! i)) ss)) ''serial'' \<noteq> None"
      by (auto simp: same_serial_def split: option.splits)
    with rk m show ?thesis by (auto simp: required_keys_def list_all_iff)
  qed
  then show "filter (same_serial (ds ! i)) ss \<noteq> [] \<Longrightarrow>
           map_of (last (filter (same_serial (ds ! i)) ss)) ''status'' \<noteq> None" .
  show "py_getitem (R ! i) ''status'' =
           (case filter (same_serial (ds ! i)) ss of
              [] \<Rightarrow> Inr (PStr ''unknown'')
            | m # ms \<Rightarrow> py_getitem (PDict (last (m # ms))) ''status'')"
  proof (cases "filter (same_serial (ds ! i)) ss")
    case Nil
    with l f st show ?thesis by (simp add: update_conv')
  next
    case (Cons m ms')
    with ms have "map_of (last (m # ms')) ''status'' \<noteq> None" by auto
    with Cons l f st show ?thesis by (auto simp add: update_conv')
  qed
qed

lemma status_entry_lacks: "lacks_serial x \<Longrightarrow> status_entry lk x = Inr lk"
  by (cases x) (simp_all add: lacks_serial_def status_entry_dict)

lemma status_lookup_skip:
  "status_lookup lk (filter (\<lambda>x. \<not> lacks_serial x) xs) = status_lookup lk xs"
  by (induction xs arbitrary: lk) (auto simp: status_entry_lacks split: sum.splits)

text \<open>The scenario of the specification: devices A and B, one status record for A.\<close>

lemma scenario_merge:
  "get_device_details
     (dict_list [[(''serial'', PStr ''A''), (''model'', PStr ''X'')],
                 [(''serial'', PStr ''B''), (''model'', PStr ''Y'')]])
     (dict_list [[(''serial'', PStr ''A''), (''status'', PStr ''online'')]])
   = Inr [PDict [(''serial'', PStr ''A''), (''model'', PStr ''X''), (''status'', PStr ''online'')],
          PDict [(''serial'', PStr ''B''), (''model'', PStr ''Y''), (''status'', PStr ''unknown'')]]"
  by code_simp

section \<open>Properties of the merge\<close>

text \<open>
  C1. \<^verbatim>\<open>get_device_details\<close> returns whenever the records have the keys it reads and the
  serials can be dictionary keys; and whenever it returns, the result has one record per
  input device, in the order of the input, and the fields of each output record other than
  \<^verbatim>\<open>status\<close> are exactly the fields of the input device, in the same order.
\<close>

theorem get_device_details_preserves_devices:
  "(required_keys ds ss \<and> serials_hashable ds ss \<longrightarrow>
      (\<exists>R. get_device_details (dict_list ds) (dict_list ss) = Inr R)) \<and>
   (\<forall>R. get_device_details (dict_list ds) (dict_list ss) = Inr R \<longrightarrow>
      length R = length ds \<and>
      (\<forall>i<length ds. \<exists>r. R ! i = PDict r \<and>
          filter (\<lambda>kv. fst kv \<noteq> ''status'') r = filter (\<lambda>kv. fst kv \<noteq> ''status'') (ds ! i)))"
  using get_device_details_total [of ds ss]
  by (auto simp: get_device_details_dicts with_status_def filter_update_other)

theorem get_device_details_preserves_devices_witness:
  "required_keys [[(''serial'', PStr ''A''), (''model'', PStr ''X'')],
                  [(''serial'', PStr ''B''), (''model'', PStr ''Y'')]]
                 [[(''serial'', PStr ''A''), (''status'', PStr ''online'')]] \<and>
   serials_hashable [[(''serial'', PStr ''A''), (''model'', PStr ''X'')],
                     [(''serial'', PStr ''B''), (''model'', PStr ''Y'')]]
                    [[(''serial'', PStr ''A''), (''status'', PStr ''online'')]] \<and>
   (\<exists>R. get_device_details
          (dict_list [[(''serial'', PStr ''A''), (''model'', PStr ''X'')],
                      [(''serial'', PStr ''B''), (''model'', PStr ''Y'')]])
          (dict_list [[(''serial'', PStr ''A''), (''status'', PStr ''online'')]]) = Inr R \<and>
        length R = 2 \<and>
        (\<exists>r. R ! 1 = PDict r \<and>
             filter (\<lambda>kv. fst kv \<noteq> ''status'') r =
               [(''serial'', PStr ''B''), (''model'', PStr ''Y'')]))"
proof -
  have k: "required_keys [[(''serial'', PStr ''A''), (''model'', PStr ''X'')],
                  [(''serial'', PStr ''B''), (''model'', PStr ''Y'')]]
                 [[(''serial'', PStr ''A''), (''status'', PStr ''online'')]]"
    by (simp add: required_keys_def)
  have h: "serials_hashable [[(''serial'', PStr ''A''), (''model'', PStr ''X'')],
                     [(''serial'', PStr ''B''), (''model'', PStr ''Y'')]]
                    [[(''serial'', PStr ''A''), (''status'', PStr ''online'')]]"
    by (simp add: serials_hashable_def)
  from k h get_device_details_preserves_devices
    [of "[[(''serial'', PStr ''A''), (''model'', PStr ''X'')],
          [(''serial'', PStr ''B''), (''model'', PStr ''Y'')]]"
        "[[(''serial'', PStr ''A''), (''status'', PStr ''online'')]]"]
  show ?thesis by fastforce
qed

text \<open>
  C2. \<^verbatim>\<open>get_device_details\<close> returns on every pair of lists whose records have the keys it
  reads and hashable serials, and in whatever it returns a device whose serial is carried by
  no status record has the status \<^verbatim>\<open>unknown\<close>, and a device whose serial is carried by
  exactly one status record has the status of that record.
\<close>

theorem get_device_details_status_unknown_or_unique:
  "(required_keys ds ss \<and> serials_hashable ds ss \<longrightarrow>
      (\<exists>R. get_device_details (dict_list ds) (dict_list ss) = Inr R)) \<and>
   (\<forall>R i. get_device_details (dict_list ds) (dict_list ss) = Inr R \<and> i < length ds \<longrightarrow>
      (filter (same_serial (ds ! i)) ss = [] \<longrightarrow>
         py_getitem (R ! i) ''status'' = Inr (PStr ''unknown'')) \<and>
      (\<forall>s. filter (same_serial (ds ! i)) ss = [s] \<longrightarrow>
         (\<exists>v. map_of s ''status'' = Some v \<and> py_getitem (R ! i) ''status'' = Inr v)))"
proof -
  have "(filter (same_serial (ds ! i)) ss = [] \<longrightarrow>
            py_getitem (R ! i) ''status'' = Inr (PStr ''unknown'')) \<and>
         (\<forall>s. filter (same_serial (ds ! i)) ss = [s] \<longrightarrow>
            (\<exists>v. map_of s ''status'' = Some v \<and> py_getitem (R ! i) ''status'' = Inr v))"
    if "get_device_details (dict_list ds) (dict_list ss) = Inr R" and "i < length ds" for R i
    using get_device_details_status [OF that] by auto
  with get_device_details_total [of ds ss] show ?thesis by blast
qed

theorem get_device_details_status_unknown_or_unique_witness:
  "required_keys [[(''serial'', PStr ''A''), (''model'', PStr ''X'')],
                  [(''serial'', PStr ''B''), (''model'', PStr ''Y'')]]
                 [[(''serial'', PStr ''A''), (''status'', PStr ''online'')]] \<and>
   serials_hashable [[(''serial'', PStr ''A''), (''model'', PStr ''X'')],
                     [(''serial'', PStr ''B''), (''model'', PStr ''Y'')]]
                    [[(''serial'', PStr ''A''), (''status'', PStr ''online'')]] \<and>
   (\<exists>R. get_device_details
          (dict_list [[(''serial'', PStr ''A''), (''model'', PStr ''X'')],
                      [(''serial'', PStr ''B''), (''model'', PStr ''Y'')]])
          (dict_list [[(''serial'', PStr ''A''), (''status'', PStr ''online'')]]) = Inr R \<and>
        py_getitem (R ! 0) ''status'' = Inr (PStr ''online'') \<and>
        py_getitem (R ! 1) ''status'' = Inr (PStr ''unknown''))"
proof -
  let ?ds = "[[(''serial'', PStr ''A''), (''model'', PStr ''X'')],
              [(''serial'', PStr ''B''), (''model'', PStr ''Y'')]]"
  let ?ss = "[[(''serial'', PStr ''A''), (''status'', PStr ''online'')]]"
  have k: "required_keys ?ds ?ss" by (simp add: required_keys_def)
  have h: "serials_hashable ?ds ?ss" by (simp add: serials_hashable_def)
  note u = get_device_details_status_unknown_or_unique [of ?ds ?ss]
  from u k h obtain R where R: "get_device_details (dict_list ?ds) (dict_list ?ss) = Inr R"
    by blast
  have f0: "filter (same_serial (?ds ! 0)) ?ss = [[(''serial'', PStr ''A''), (''status'', PStr ''online'')]]"
    by (simp add: same_serial_def)
  have f1: "filter (same_serial (?ds ! 1)) ?ss = []"
    by (simp add: same_serial_def)
  have i0: "0 < length ?ds" and i1: "1 < length ?ds" by simp_all
  from u R i0 have "(\<forall>s. filter (same_serial (?ds ! 0)) ?ss = [s] \<longrightarrow>
         (\<exists>v. map_of s ''status'' = Some v \<and> py_getitem (R ! 0) ''status'' = Inr v))"
    by blast
  with f0 have a: "py_getitem (R ! 0) ''status'' = Inr (PStr ''online'')" by simp
  from u R i1 have "filter (same_serial (?ds ! 1)) ?ss = [] \<longrightarrow>
         py_getitem (R ! 1) ''status'' = Inr (PStr ''unknown'')"
    by blast
  with f1 have b: "py_getitem (R ! 1) ''status'' = Inr (PStr ''unknown'')" by simp
  from k h R a b show ?thesis by blast
qed

text \<open>
  C8. In a returned merge, a device whose serial is carried by one or several status records
  has the status of the last of these records in the status list.
\<close>

theorem get_device_details_last_write_wins:
  assumes "get_device_details (dict_list ds) (dict_list ss) = Inr R" and "i < length ds"
    and "filter (same_serial (ds ! i)) ss \<noteq> []"
  shows "\<exists>v. map_of (last (filter (same_serial (ds ! i)) ss)) ''status'' = Some v \<and>
             py_getitem (R ! i) ''status'' = Inr v"
  using get_device_details_status [OF assms(1,2)] assms(3) by (auto split: list.splits)

theorem get_device_details_last_write_wins_witness:
  "get_device_details
     (dict_list [[(''serial'', PStr ''A'')]])
     (dict_list [[(''serial'', PStr ''A''), (''status'', PStr ''online'')],
                 [(''serial'', PStr ''B''), (''status'', PStr ''alerting'')],
                 [(''serial'', PStr ''A''), (''status'', PStr ''offline'')],
                 [(''status'', PStr ''dormant'')]])
     = Inr [PDict [(''serial'', PStr ''A''), (''status'', PStr ''offline'')]] \<and>
   py_getitem ([PDict [(''serial'', PStr ''A''), (''status'', PStr ''offline'')]] ! 0) ''status''
     = Inr (PStr ''offline'')"
proof -
  have e: "get_device_details
     (dict_list [[(''serial'', PStr ''A'')]])
     (dict_list [[(''serial'', PStr ''A''), (''status'', PStr ''online'')],
                 [(''serial'', PStr ''B''), (''status'', PStr ''alerting'')],
                 [(''serial'', PStr ''A''), (''status'', PStr ''offline'')],
                 [(''status'', PStr ''dormant'')]])
     = Inr [PDict [(''serial'', PStr ''A''), (''status'', PStr ''offline'')]]"
    by code_simp
  have i: "(0::nat) < length [[(''serial'', PStr ''A'')]]" by simp
  have f: "filter (same_serial ([[(''serial'', PStr ''A'')]] ! 0))
             [[(''serial'', PStr ''A''), (''status'', PStr ''online'')],
              [(''serial'', PStr ''B''), (''status'', PStr ''alerting'')],
              [(''serial'', PStr ''A''), (''status'', PStr ''offline'')],
              [(''status'', PStr ''dormant'')]] \<noteq> []"
    by (simp add: same_serial_def)
  from get_device_details_last_write_wins [OF e i f] e show ?thesis
    by (simp add: same_serial_def)
qed

text \<open>
  C9. The keys alone do not keep \<^verbatim>\<open>get_device_details\<close> from raising: a device whose
  \<^verbatim>\<open>serial\<close> is a list has the key, and looking it up raises \<^verbatim>\<open>TypeError\<close>.
\<close>

theorem get_device_details_unhashable_serial_raises:
  "required_keys [[(''serial'', PList [])]] [] \<and>
   get_device_details (dict_list [[(''serial'', PList [])]]) (dict_list []) = Inl TypeError"
  by code_simp

text \<open>
  C9, amended. \<^verbatim>\<open>get_device_details\<close> returns without raising whenever every device has the
  key \<^verbatim>\<open>serial\<close>, every status record that has \<^verbatim>\<open>serial\<close> also has \<^verbatim>\<open>status\<close>, and no
  \<^verbatim>\<open>serial\<close> is a list or a dictionary.
\<close>

theorem get_device_details_no_raise:
  "required_keys ds ss \<Longrightarrow> serials_hashable ds ss \<Longrightarrow>
     \<exists>R. get_device_details (dict_list ds) (dict_list ss) = Inr R"
  by (rule get_device_details_total)

theorem get_device_details_no_raise_witness:
  "required_keys [[(''serial'', PInt 7)]] [[(''status'', PStr ''online'')], [(''serial'', PBool True), (''status'', PNone)]] \<and>
   serials_hashable [[(''serial'', PInt 7)]] [[(''status'', PStr ''online'')], [(''serial'', PBool True), (''status'', PNone)]] \<and>
   (\<exists>R. get_device_details (dict_list [[(''serial'', PInt 7)]])
          (dict_list [[(''status'', PStr ''online'')], [(''serial'', PBool True), (''status'', PNone)]]) = Inr R)"
proof -
  have k: "required_keys [[(''serial'', PInt 7)]]
             [[(''status'', PStr ''online'')], [(''serial'', PBool True), (''status'', PNone)]]"
    by (simp add: required_keys_def)
  have h: "serials_hashable [[(''serial'', PInt 7)]]
             [[(''status'', PStr ''online'')], [(''serial'', PBool True), (''status'', PNone)]]"
    by (simp add: serials_hashable_def)
  from get_device_details_no_raise [OF k h] k h show ?thesis by simp
qed

text \<open>
  C10. Status records without the key \<^verbatim>\<open>serial\<close> never influence the outcome: for every
  device argument and every status list, removing these records from the status list changes
  neither the result nor the exception raised.
\<close>

theorem get_device_details_ignores_records_without_serial:
  "get_device_details D (PList (filter (\<lambda>x. \<not> lacks_serial x) xs)) = get_device_details D (PList xs)"
  by (simp add: get_device_details_def status_lookup_skip)

section \<open>Properties of the report\<close>

lemma detailed_loop_length:
  "detailed_loop lk xs acc = Inr R \<Longrightarrow> length R = length acc + length xs"
  by (induction xs arbitrary: acc) (auto split: sum.splits)

lemma get_device_details_length:
  "get_device_details (PList xs) S = Inr R \<Longrightarrow> length R = length xs"
  by (auto simp: get_device_details_def split: sum.splits dest: detailed_loop_length)

lemma count_status_filter:
  "count_status st xs n = Inr m \<Longrightarrow>
   m = n + int (length (filter (\<lambda>d. py_getitem d ''status'' = Inr (PStr st)) xs))"
proof (induction xs arbitrary: n)
  case Nil
  then show ?case by simp
next
  case (Cons d ds)
  from Cons.prems obtain v where v: "py_getitem d ''status'' = Inr v"
    and c: "count_status st ds (if v = PStr st then n + 1 else n) = Inr m"
    by (auto split: sum.splits)
  from Cons.IH [OF c] v show ?case by auto
qed

lemma disjoint_filters_length:
  "(\<And>x. \<not> (P x \<and> Q x)) \<Longrightarrow> length (filter P xs) + length (filter Q xs) \<le> length xs"
  by (induction xs) auto

text \<open>
  C3. In every report that \<^verbatim>\<open>generate_network_report\<close> produces for a list of devices, the
  summary satisfies: online plus offline is at most the total, the total is the length of
  the device list, and the availability percentage is the integer 0 when the total is 0 and
  otherwise \<^verbatim>\<open>round(online / total * 100, 2)\<close>.
\<close>

theorem generate_network_report_summary:
  assumes "generate_network_report w org_name network_name (PList xs) statuses = Inr r"
  shows "online_devices (summary r) + offline_devices (summary r) \<le> total_devices (summary r) \<and>
         total_devices (summary r) = int (length xs) \<and>
         availability_percentage (summary r) =
           (if total_devices (summary r) = 0 then NInt 0
            else NFloat (float_round w (float_mul w
                   (float_div w (online_devices (summary r)) (total_devices (summary r))) 100) 2))"
proof -
  from assms obtain R online offline where
    R: "get_device_details (PList xs) statuses = Inr R"
    and on: "count_status ''online'' R 0 = Inr online"
    and off: "count_status ''offline'' R 0 = Inr offline"
    and r: "summary r = \<lparr>total_devices = int (length R), online_devices = online,
              offline_devices = offline,
              availability_percentage =
                (if int (length R) > 0 then
                   NFloat (float_round w (float_mul w (float_div w online (int (length R))) 100) 2)
                 else NInt 0)\<rparr>"
    by (auto simp: generate_network_report_def Let_def split: sum.splits)
  have len: "length R = length xs" using R by (rule get_device_details_length)
  have "length (filter (\<lambda>d. py_getitem d ''status'' = Inr (PStr ''online'')) R) +
        length (filter (\<lambda>d. py_getitem d ''status'' = Inr (PStr ''offline'')) R) \<le> length R"
    by (rule disjoint_filters_length) auto
  with count_status_filter [OF on] count_status_filter [OF off]
  have le: "online + offline \<le> int (length R)" by simp
  from r len le show ?thesis by simp
qed

theorem generate_network_report_summary_witness:
  "\<exists>r. generate_network_report (demo_world key_env demo_server) (PStr ''Org'') (PStr ''Net'')
     (PList [PDict [(''serial'', PStr ''A''), (''model'', PStr ''X'')],
             PDict [(''serial'', PStr ''B''), (''model'', PStr ''Y'')]])
     (PList [PDict [(''serial'', PStr ''A''), (''status'', PStr ''online'')]]) = Inr r \<and>
     summary r = \<lparr>total_devices = 2, online_devices = 1, offline_devices = 0,
                  availability_percentage = NFloat 50\<rparr>"
proof -
  have e: "generate_network_report (demo_world key_env demo_server) (PStr ''Org'') (PStr ''Net'')
     (PList [PDict [(''serial'', PStr ''A''), (''model'', PStr ''X'')],
             PDict [(''serial'', PStr ''B''), (''model'', PStr ''Y'')]])
     (PList [PDict [(''serial'', PStr ''A''), (''status'', PStr ''online'')]]) =
     Inr \<lparr>timestamp = ''2024-05-01T12:00:00'', organization = PStr ''Org'',
        network = PStr ''Net'',
        summary =
          \<lparr>total_devices = 2, online_devices = 1, offline_devices = 0,
             availability_percentage = NFloat 50\<rparr>,
        devices =
          [PDict [(''serial'', PStr ''A''), (''model'', PStr ''X''), (''status'', PStr ''online'')],
           PDict [(''serial'', PStr ''B''), (''model'', PStr ''Y''), (''status'', PStr ''unknown'')]]\<rparr>"
    by code_simp
  from generate_network_report_summary [OF e] e show ?thesis by simp
qed

section \<open>Properties of the fetchers\<close>

lemma make_api_request_returns:
  "\<exists>r t. make_api_request w endpoint = (Inr r, t)"
  by (auto simp: make_api_request_def Let_def split: sum.splits http_outcome.splits)

lemma or_empty_list_returns:
  "or_empty_list (Inr r, t) = (Inr (if py_truthy r then r else PList []), t)"
  by (simp add: or_empty_list_def io_bind_def io_lift_def py_or_def)

text \<open>
  C4. A fetcher does not return the body verbatim whenever it is not null: the server answers
  with the empty object, \<^verbatim>\<open>make_api_request\<close> returns it, and \<^verbatim>\<open>get_organizations\<close> returns the
  empty list.
\<close>

theorem get_organizations_drops_empty_object:
  "make_api_request (demo_world key_env empty_object_server) [Lit ''/organizations''] =
     (Inr (PDict []),
      [HttpGet [Lit ''https://api.meraki.com/api/v1'', Lit ''/organizations'']
         [(''X-Cisco-Meraki-API-Key'', ''0123abcd''), (''Content-Type'', ''application/json'')]]) \<and>
   get_organizations (demo_world key_env empty_object_server) =
     (Inr (PList []),
      [HttpGet [Lit ''https://api.meraki.com/api/v1'', Lit ''/organizations'']
         [(''X-Cisco-Meraki-API-Key'', ''0123abcd''), (''Content-Type'', ''application/json'')]])"
  by code_simp

lemma make_api_request_body:
  "get_headers w = Inr headers \<Longrightarrow>
   http_get w (Lit ''https://api.meraki.com/api/v1'' # endpoint) headers = Body json \<Longrightarrow>
   make_api_request w endpoint =
     (Inr json, [HttpGet (Lit ''https://api.meraki.com/api/v1'' # endpoint) headers])"
  by (simp add: make_api_request_def)

lemma make_api_request_none:
  "get_headers w = Inl err \<or>
   (get_headers w = Inr headers \<and>
    (\<forall>json. http_get w (Lit ''https://api.meraki.com/api/v1'' # endpoint) headers \<noteq> Body json)) \<Longrightarrow>
   fst (make_api_request w endpoint) = Inr PNone"
  by (auto simp: make_api_request_def Let_def split: http_outcome.splits)

text \<open>
  C4, amended. \<^verbatim>\<open>make_api_request\<close> never raises: when the request gives a body it returns
  that body unchanged, and when the key is missing or the request fails it returns \<^verbatim>\<open>None\<close>.
  Each of the five fetchers emits the events of its request and returns the empty list when
  the result of the request is falsy (\<^verbatim>\<open>None\<close>, \<^verbatim>\<open>False\<close>, \<^verbatim>\<open>0\<close>, the empty string,
  list or dictionary), and the result itself, unchanged, otherwise.
\<close>

theorem fetchers_coalesce_falsy_results:
  "(get_headers w = Inr headers \<and>
    http_get w (Lit ''https://api.meraki.com/api/v1'' # endpoint) headers = Body json \<longrightarrow>
      make_api_request w endpoint =
        (Inr json, [HttpGet (Lit ''https://api.meraki.com/api/v1'' # endpoint) headers])) \<and>
   (get_headers w = Inl err \<or>
    (get_headers w = Inr headers \<and>
     (\<forall>json. http_get w (Lit ''https://api.meraki.com/api/v1'' # endpoint) headers \<noteq> Body json)) \<longrightarrow>
      fst (make_api_request w endpoint) = Inr PNone) \<and>
   (\<exists>r t. make_api_request w [Lit ''/organizations''] = (Inr r, t) \<and>
      get_organizations w = (Inr (if py_truthy r then r else PList []), t)) \<and>
   (\<exists>r t. make_api_request w [Lit ''/organizations/'', Val org_id, Lit ''/networks''] = (Inr r, t) \<and>
      get_networks w org_id = (Inr (if py_truthy r then r else PList []), t)) \<and>
   (\<exists>r t. make_api_request w [Lit ''/networks/'', Val network_id, Lit ''/devices''] = (Inr r, t) \<and>
      get_network_inventory w network_id = (Inr (if py_truthy r then r else PList []), t)) \<and>
   (\<exists>r t. make_api_request w [Lit ''/organizations/'', Val org_id, Lit ''/devices/statuses''] = (Inr r, t) \<and>
      get_device_statuses w org_id = (Inr (if py_truthy r then r else PList []), t)) \<and>
   (\<exists>r t. make_api_request w
        [Lit ''/networks/'', Val network_id, Lit ''/devices/'', Val serial, Lit ''/availabilities'']
          = (Inr r, t) \<and>
      get_device_availabilities w network_id serial = (Inr (if py_truthy r then r else PList []), t))"
proof -
  have *: "\<exists>r t. make_api_request w e = (Inr r, t) \<and>
      or_empty_list (make_api_request w e) = (Inr (if py_truthy r then r else PList []), t)" for e
    using make_api_request_returns [of w e] or_empty_list_returns by metis
  show ?thesis
    unfolding get_organizations_def get_networks_def get_network_inventory_def
      get_device_statuses_def get_device_availabilities_def
    using make_api_request_body [of w headers endpoint json]
      make_api_request_none [of w err headers endpoint]
    by (intro conjI *) blast+
qed

theorem fetchers_coalesce_falsy_results_witness:
  "get_headers (demo_world key_env demo_server) =
     Inr [(''X-Cisco-Meraki-API-Key'', ''0123abcd''), (''Content-Type'', ''application/json'')] \<and>
   http_get (demo_world key_env demo_server)
     [Lit ''https://api.meraki.com/api/v1'', Lit ''/organizations'']
     [(''X-Cisco-Meraki-API-Key'', ''0123abcd''), (''Content-Type'', ''application/json'')] =
     Body (PList [PDict [(''id'', PStr ''1''), (''name'', PStr ''Org'')]]) \<and>
   get_organizations (demo_world key_env demo_server) =
     (Inr (PList [PDict [(''id'', PStr ''1''), (''name'', PStr ''Org'')]]),
      [HttpGet [Lit ''https://api.meraki.com/api/v1'', Lit ''/organizations'']
         [(''X-Cisco-Meraki-API-Key'', ''0123abcd''), (''Content-Type'', ''application/json'')]])"
proof -
  let ?w = "demo_world key_env demo_server"
  let ?h = "[(''X-Cisco-Meraki-API-Key'', ''0123abcd''), (''Content-Type'', ''application/json'')]"
  let ?j = "PList [PDict [(''id'', PStr ''1''), (''name'', PStr ''Org'')]]"
  have h: "get_headers ?w = Inr ?h" by code_simp
  have b: "http_get ?w [Lit ''https://api.meraki.com/api/v1'', Lit ''/organizations''] ?h = Body ?j"
    by (simp add: demo_world_def demo_server_def)
  note u = fetchers_coalesce_falsy_results [of ?w ?h "[Lit ''/organizations'']" ?j]
  from u h b have m: "make_api_request ?w [Lit ''/organizations''] =
      (Inr ?j, [HttpGet [Lit ''https://api.meraki.com/api/v1'', Lit ''/organizations''] ?h])"
    by blast
  from u obtain r t where "make_api_request ?w [Lit ''/organizations''] = (Inr r, t)"
    and "get_organizations ?w = (Inr (if py_truthy r then r else PList []), t)"
    by blast
  with m have "get_organizations ?w =
      (Inr ?j, [HttpGet [Lit ''https://api.meraki.com/api/v1'', Lit ''/organizations''] ?h])"
    by simp
  with h b show ?thesis by blast
qed

section \<open>Properties of saving\<close>

text \<open>
  C5. \<^verbatim>\<open>save_to_file\<close> never raises: it returns \<^verbatim>\<open>True\<close> when the file is written, and
  when opening or writing fails it prints the error and returns \<^verbatim>\<open>False\<close>.
\<close>

theorem save_to_file_catches_failures:
  "(\<exists>b. fst (save_to_file w data filename) = Inr b) \<and>
   (file_write w filename data = Written \<longrightarrow>
      save_to_file w data filename =
        (Inr True, [FileWrite filename data, Print [Lit ''Data saved to '', Lit filename]])) \<and>
   (\<forall>msg. file_write w filename data = OpenFailed msg \<or> file_write w filename data = WriteFailed msg \<longrightarrow>
      save_to_file w data filename =
        (Inr False, [FileWrite filename data,
                     Print [Lit ''Error saving to '', Lit filename, Lit '': '', Exc (OSError msg)]]))"
  by (auto simp: save_to_file_def write_json_def split: io_outcome.splits)

theorem save_to_file_catches_failures_witness:
  "save_to_file (demo_world key_env demo_server) (Json (PList [])) ''/readonly/out.json'' =
     (Inr False, [FileWrite ''/readonly/out.json'' (Json (PList [])),
                  Print [Lit ''Error saving to '', Lit ''/readonly/out.json'', Lit '': '',
                         Exc (OSError ''Permission denied'')]]) \<and>
   save_to_file (demo_world key_env demo_server) (Json (PList [])) ''devices.json'' =
     (Inr True, [FileWrite ''devices.json'' (Json (PList [])),
                 Print [Lit ''Data saved to '', Lit ''devices.json'']])"
proof -
  have a: "file_write (demo_world key_env demo_server) ''/readonly/out.json'' (Json (PList []))
             = OpenFailed ''Permission denied''"
    by (simp add: demo_world_def demo_disk_def)
  have b: "file_write (demo_world key_env demo_server) ''devices.json'' (Json (PList [])) = Written"
    by (simp add: demo_world_def demo_disk_def)
  from save_to_file_catches_failures [of "demo_world key_env demo_server" "Json (PList [])" "''/readonly/out.json''"]
       save_to_file_catches_failures [of "demo_world key_env demo_server" "Json (PList [])" "''devices.json''"] a b
  show ?thesis by simp
qed

section \<open>Properties of authentication\<close>

text \<open>
  C6. When \<^verbatim>\<open>MERAKI_API_KEY\<close> is unset or empty, \<^verbatim>\<open>get_api_key\<close> raises \<^verbatim>\<open>ValueError\<close>;
  every \<^verbatim>\<open>make_api_request\<close> then ends with that error reported and no request sent, and
  a whole run of \<^verbatim>\<open>main\<close> sends no request at all.
\<close>

theorem missing_api_key_no_request:
  assumes "getenv w ''MERAKI_API_KEY'' = None \<or> getenv w ''MERAKI_API_KEY'' = Some ''''"
  shows "get_api_key w = Inl (ValueError ''MERAKI_API_KEY not found in environment variables'') \<and>
         (\<forall>endpoint. make_api_request w endpoint =
            (Inr PNone, [Print [Lit ''Unexpected error: '',
               Exc (ValueError ''MERAKI_API_KEY not found in environment variables'')]])) \<and>
         main w =
           [Print [Lit ''Fetching Meraki organization data...''],
            Print [Lit ''Unexpected error: '',
               Exc (ValueError ''MERAKI_API_KEY not found in environment variables'')],
            Print [Lit ''No organizations found or API error occurred.'']] \<and>
         \<not> list_ex is_request (main w)"
proof -
  from assms have k: "get_api_key w = Inl (ValueError ''MERAKI_API_KEY not found in environment variables'')"
    by (auto simp: get_api_key_def)
  then have m: "make_api_request w endpoint =
            (Inr PNone, [Print [Lit ''Unexpected error: '',
               Exc (ValueError ''MERAKI_API_KEY not found in environment variables'')]])" for endpoint
    by (simp add: make_api_request_def get_headers_def)
  have t: "main w =
           [Print [Lit ''Fetching Meraki organization data...''],
            Print [Lit ''Unexpected error: '',
               Exc (ValueError ''MERAKI_API_KEY not found in environment variables'')],
            Print [Lit ''No organizations found or API error occurred.'']]"
    by (simp add: main_def main_try_def get_organizations_def m or_empty_list_returns
          main_organizations_def io_bind_def io_print_def)
  from k m t show ?thesis by (simp add: is_request_def)
qed

theorem missing_api_key_no_request_witness:
  "getenv (demo_world empty_env demo_server) ''MERAKI_API_KEY'' = None \<and>
   get_api_key (demo_world empty_env demo_server) =
     Inl (ValueError ''MERAKI_API_KEY not found in environment variables'') \<and>
   \<not> list_ex is_request (main (demo_world empty_env demo_server))"
proof -
  have e: "getenv (demo_world empty_env demo_server) ''MERAKI_API_KEY'' = None"
    by (simp add: demo_world_def empty_env_def)
  then have "getenv (demo_world empty_env demo_server) ''MERAKI_API_KEY'' = None \<or>
    getenv (demo_world empty_env demo_server) ''MERAKI_API_KEY'' = Some ''''" by simp
  from missing_api_key_no_request [OF this] e show ?thesis by (simp add: is_request_def)
qed

section \<open>Properties of the orchestrator\<close>

text \<open>
  C7. An empty device list does not end the run: with no devices in the network,
  \<^verbatim>\<open>main\<close> goes on to write \<^verbatim>\<open>devices.json\<close>, to request the statuses and to write the
  report.
\<close>

theorem main_continues_on_empty_devices:
  "get_network_inventory (demo_world key_env demo_server) (PStr ''N1'') =
     (Inr (PList []),
      [HttpGet [Lit ''https://api.meraki.com/api/v1'', Lit ''/networks/'', Val (PStr ''N1''), Lit ''/devices'']
         [(''X-Cisco-Meraki-API-Key'', ''0123abcd''), (''Content-Type'', ''application/json'')]]) \<and>
   main_devices (demo_world key_env demo_server)
     (PDict [(''id'', PStr ''1''), (''name'', PStr ''Org'')])
     (PDict [(''id'', PStr ''N1''), (''name'', PStr ''Net'')]) (PList []) =
     (Inr (),
      [Print [Lit ''Devices: '', Num (NInt 0), Lit '' found''],
       FileWrite ''devices.json'' (Json (PList [])),
       Print [Lit ''Data saved to '', Lit ''devices.json''],
       Print [Lit (CHR 0x0A # ''Fetching device status information...'')],
       HttpGet [Lit ''https://api.meraki.com/api/v1'', Lit ''/organizations/'', Val (PStr ''1''),
                Lit ''/devices/statuses'']
         [(''X-Cisco-Meraki-API-Key'', ''0123abcd''), (''Content-Type'', ''application/json'')],
       Print [Lit (CHR 0x0A # ''Generating network report...'')],
       FileWrite ''network_report.json''
         (Report \<lparr>timestamp = ''2024-05-01T12:00:00'', organization = PStr ''Org'',
                   network = PStr ''Net'',
                   summary = \<lparr>total_devices = 0, online_devices = 0, offline_devices = 0,
                               availability_percentage = NInt 0\<rparr>,
                   devices = []\<rparr>),
       Print [Lit ''Data saved to '', Lit ''network_report.json''],
       Print [Lit (CHR 0x0A # ''Network Report Summary:'')],
       Print [Lit ''  Organization: '', Val (PStr ''Org'')],
       Print [Lit ''  Network: '', Val (PStr ''Net'')],
       Print [Lit ''  Total Devices: '', Num (NInt 0)],
       Print [Lit ''  Online: '', Num (NInt 0)],
       Print [Lit ''  Offline: '', Num (NInt 0)],
       Print [Lit ''  Availability: '', Num (NInt 0), Lit ''%'']])"
  by code_simp

lemma io_bind_Inr: "fst m = Inr x \<Longrightarrow> io_bind m k = (fst (k x), snd m @ snd (k x))"
  by (cases m) (auto simp: io_bind_def split: prod.splits)

lemma io_bind_lift: "io_bind (io_lift (Inr x)) k = k x"
  by (simp add: io_bind_def io_lift_def split: prod.splits)

lemma io_bind_print: "io_bind (io_print s) k = (fst (k ()), Print s # snd (k ()))"
  by (simp add: io_bind_def io_print_def split: prod.splits)

lemma save_to_file_fst: "fst (save_to_file w d f) = Inr (file_write w f d = Written)"
  by (auto simp: save_to_file_def write_json_def split: io_outcome.splits)

lemma main_statuses_empty:
  "main_statuses w first_org first_network devices' (PList []) =
     (Inr (), [Print [Lit ''Unable to retrieve device status information.'']])"
  by (simp add: main_statuses_def io_print_def)

lemma main_networks_empty:
  "main_networks w first_org (PList []) = (Inr (), [Print [Lit ''No networks found.'']])"
  by (simp add: main_networks_def io_print_def)

lemma main_organizations_empty:
  "main_organizations w (PList []) =
     (Inr (), [Print [Lit ''No organizations found or API error occurred.'']])"
  by (simp add: main_organizations_def io_print_def)

lemma main_devices_no_statuses:
  assumes "py_len devices' = Inr n" and "py_getitem first_org ''id'' = Inr org_id"
    and "fst (get_device_statuses w org_id) = Inr (PList [])"
  shows "main_devices w first_org first_network devices' =
     (Inr (),
      Print [Lit ''Devices: '', Num (NInt n), Lit '' found''] #
      snd (save_to_file w (Json devices') ''devices.json'') @
      Print [Lit (CHR 0x0A # ''Fetching device status information...'')] #
      snd (get_device_statuses w org_id) @
      [Print [Lit ''Unable to retrieve device status information.'']])"
  using assms
  by (simp add: main_devices_def io_bind_lift io_bind_print io_bind_Inr [OF save_to_file_fst]
        io_bind_Inr [OF assms(3)] main_statuses_empty)

lemma main_organizations_no_networks:
  assumes "py_truthy organizations" and "py_first organizations = Inr first_org"
    and "py_getitem first_org ''name'' = Inr org_name"
    and "py_getitem first_org ''id'' = Inr org_id"
    and "fst (get_networks w org_id) = Inr (PList [])"
  shows "main_organizations w organizations =
     (Inr (),
      snd (save_to_file w (Json organizations) ''organizations.json'') @
      Print [Lit ''Organization: '', Val org_name] #
      snd (get_networks w org_id) @
      [Print [Lit ''No networks found.'']])"
  using assms
  by (simp add: main_organizations_def io_bind_lift io_bind_print io_bind_Inr [OF save_to_file_fst]
        io_bind_Inr [OF assms(5)] main_networks_empty)

lemma main_organizations_no_statuses:
  assumes "py_truthy organizations" and "py_first organizations = Inr first_org"
    and "py_getitem first_org ''name'' = Inr org_name"
    and "py_getitem first_org ''id'' = Inr org_id"
    and "fst (get_networks w org_id) = Inr networks"
    and "py_truthy networks" and "py_first networks = Inr first_network"
    and "py_getitem first_network ''name'' = Inr network_name"
    and "py_getitem first_network ''id'' = Inr network_id"
    and "fst (get_network_inventory w network_id) = Inr devices'"
    and "py_len devices' = Inr n"
    and "fst (get_device_statuses w org_id) = Inr (PList [])"
  shows "main_organizations w organizations =
     (Inr (),
      snd (save_to_file w (Json organizations) ''organizations.json'') @
      Print [Lit ''Organization: '', Val org_name] #
      snd (get_networks w org_id) @
      snd (save_to_file w (Json networks) ''networks.json'') @
      Print [Lit ''Network: '', Val network_name] #
      snd (get_network_inventory w network_id) @
      Print [Lit ''Devices: '', Num (NInt n), Lit '' found''] #
      snd (save_to_file w (Json devices') ''devices.json'') @
      Print [Lit (CHR 0x0A # ''Fetching device status information...'')] #
      snd (get_device_statuses w org_id) @
      [Print [Lit ''Unable to retrieve device status information.'']])"
  using assms(1-4,6-9)
  by (simp add: main_organizations_def main_networks_def io_bind_lift io_bind_print
        io_bind_Inr [OF save_to_file_fst] io_bind_Inr [OF assms(5)] io_bind_Inr [OF assms(10)]
        main_devices_no_statuses [OF assms(11) assms(4) assms(12)])

lemma main_of_organizations:
  assumes "fst (get_organizations w) = Inr organizations"
    and "main_organizations w organizations = (Inr (), t)"
  shows "main w = Print [Lit ''Fetching Meraki organization data...''] #
                  snd (get_organizations w) @ t"
  using assms(2)
  by (simp add: main_def main_try_def io_bind_print io_bind_Inr [OF assms(1)])

text \<open>
  C7, amended. A run of \<^verbatim>\<open>main\<close> in which the organizations, the networks or the statuses
  come back as the empty list ends right after that fetch with one printed message: the
  events of the run are those up to and including the fetch, then the message, with no
  further request and no further file written. The same holds of the rest of the block from
  each of these three points.
\<close>

theorem main_short_circuits:
  "(fst (get_organizations w) = Inr (PList []) \<longrightarrow>
      main w = Print [Lit ''Fetching Meraki organization data...''] # snd (get_organizations w) @
               [Print [Lit ''No organizations found or API error occurred.'']] \<and>
      \<not> list_ex is_save (main w) \<and>
      length (filter is_request (main w)) \<le> 1) \<and>
   (fst (get_organizations w) = Inr organizations \<and> py_truthy organizations \<and>
    py_first organizations = Inr first_org \<and>
    py_getitem first_org ''name'' = Inr org_name \<and>
    py_getitem first_org ''id'' = Inr org_id \<and>
    fst (get_networks w org_id) = Inr (PList []) \<longrightarrow>
      main w = Print [Lit ''Fetching Meraki organization data...''] #
               snd (get_organizations w) @
               snd (save_to_file w (Json organizations) ''organizations.json'') @
               Print [Lit ''Organization: '', Val org_name] #
               snd (get_networks w org_id) @
               [Print [Lit ''No networks found.'']]) \<and>
   (fst (get_organizations w) = Inr organizations \<and> py_truthy organizations \<and>
    py_first organizations = Inr first_org \<and>
    py_getitem first_org ''name'' = Inr org_name \<and>
    py_getitem first_org ''id'' = Inr org_id \<and>
    fst (get_networks w org_id) = Inr networks \<and> py_truthy networks \<and>
    py_first networks = Inr first_network \<and>
    py_getitem first_network ''name'' = Inr network_name \<and>
    py_getitem first_network ''id'' = Inr network_id \<and>
    fst (get_network_inventory w network_id) = Inr devices' \<and>
    py_len devices' = Inr n \<and>
    fst (get_device_statuses w org_id) = Inr (PList []) \<longrightarrow>
      main w = Print [Lit ''Fetching Meraki organization data...''] #
               snd (get_organizations w) @
               snd (save_to_file w (Json organizations) ''organizations.json'') @
               Print [Lit ''Organization: '', Val org_name] #
               snd (get_networks w org_id) @
               snd (save_to_file w (Json networks) ''networks.json'') @
               Print [Lit ''Network: '', Val network_name] #
               snd (get_network_inventory w network_id) @
               Print [Lit ''Devices: '', Num (NInt n), Lit '' found''] #
               snd (save_to_file w (Json devices') ''devices.json'') @
               Print [Lit (CHR 0x0A # ''Fetching device status information...'')] #
               snd (get_device_statuses w org_id) @
               [Print [Lit ''Unable to retrieve device status information.'']]) \<and>
   main_organizations w (PList []) =
     (Inr (), [Print [Lit ''No organizations found or API error occurred.'']]) \<and>
   main_networks w first_org (PList []) = (Inr (), [Print [Lit ''No networks found.'']]) \<and>
   main_statuses w first_org first_network devices' (PList []) =
     (Inr (), [Print [Lit ''Unable to retrieve device status information.'']])"
proof -
  have d: "main w = Print [Lit ''Fetching Meraki organization data...''] # snd (get_organizations w) @
               [Print [Lit ''No organizations found or API error occurred.'']] \<and>
      \<not> list_ex is_save (main w) \<and>
      length (filter is_request (main w)) \<le> 1"
    if e: "fst (get_organizations w) = Inr (PList [])"
  proof -
    obtain r t where m: "make_api_request w [Lit ''/organizations''] = (Inr r, t)"
      using make_api_request_returns by blast
    then have t: "\<not> list_ex is_save t \<and> length (filter is_request t) \<le> 1"
      by (auto simp: make_api_request_def Let_def is_save_def is_request_def
            split: sum.splits http_outcome.splits)
    from m have g: "get_organizations w = (Inr (if py_truthy r then r else PList []), t)"
      by (simp add: get_organizations_def or_empty_list_returns)
    then have s: "snd (get_organizations w) = t" by simp
    from main_of_organizations [OF e main_organizations_empty]
    have "main w = Print [Lit ''Fetching Meraki organization data...''] # t @
               [Print [Lit ''No organizations found or API error occurred.'']]"
      by (simp add: s)
    with s t show ?thesis by (simp add: is_save_def is_request_def)
  qed
  have n: "main w = Print [Lit ''Fetching Meraki organization data...''] #
               snd (get_organizations w) @
               snd (save_to_file w (Json organizations) ''organizations.json'') @
               Print [Lit ''Organization: '', Val org_name] #
               snd (get_networks w org_id) @
               [Print [Lit ''No networks found.'']]"
    if "fst (get_organizations w) = Inr organizations" "py_truthy organizations"
      "py_first organizations = Inr first_org" "py_getitem first_org ''name'' = Inr org_name"
      "py_getitem first_org ''id'' = Inr org_id" "fst (get_networks w org_id) = Inr (PList [])"
    using main_of_organizations [OF that(1) main_organizations_no_networks [OF that(2-6)]]
    by simp
  have s: "main w = Print [Lit ''Fetching Meraki organization data...''] #
               snd (get_organizations w) @
               snd (save_to_file w (Json organizations) ''organizations.json'') @
               Print [Lit ''Organization: '', Val org_name] #
               snd (get_networks w org_id) @
               snd (save_to_file w (Json networks) ''networks.json'') @
               Print [Lit ''Network: '', Val network_name] #
               snd (get_network_inventory w network_id) @
               Print [Lit ''Devices: '', Num (NInt n), Lit '' found''] #
               snd (save_to_file w (Json devices') ''devices.json'') @
               Print [Lit (CHR 0x0A # ''Fetching device status information...'')] #
               snd (get_device_statuses w org_id) @
               [Print [Lit ''Unable to retrieve device status information.'']]"
    if "fst (get_organizations w) = Inr organizations" "py_truthy organizations"
      "py_first organizations = Inr first_org" "py_getitem first_org ''name'' = Inr org_name"
      "py_getitem first_org ''id'' = Inr org_id"
      "fst (get_networks w org_id) = Inr networks" "py_truthy networks"
      "py_first networks = Inr first_network"
      "py_getitem first_network ''name'' = Inr network_name"
      "py_getitem first_network ''id'' = Inr network_id"
      "fst (get_network_inventory w network_id) = Inr devices'"
      "py_len devices' = Inr n"
      "fst (get_device_statuses w org_id) = Inr (PList [])"
    using main_of_organizations [OF that(1) main_organizations_no_statuses [OF that(2-13)]]
    by simp
  from d n s main_organizations_empty [of w] main_networks_empty [of w first_org]
    main_statuses_empty [of w first_org first_network devices']
  show ?thesis by blast
qed

theorem main_short_circuits_witness:
  "main (demo_world empty_env demo_server) =
     [Print [Lit ''Fetching Meraki organization data...''],
      Print [Lit ''Unexpected error: '',
             Exc (ValueError ''MERAKI_API_KEY not found in environment variables'')],
      Print [Lit ''No organizations found or API error occurred.'']] \<and>
   main (demo_world key_env no_networks_server) =
     [Print [Lit ''Fetching Meraki organization data...''],
      HttpGet [Lit ''https://api.meraki.com/api/v1'', Lit ''/organizations'']
        [(''X-Cisco-Meraki-API-Key'', ''0123abcd''), (''Content-Type'', ''application/json'')],
      FileWrite ''organizations.json''
        (Json (PList [PDict [(''id'', PStr ''1''), (''name'', PStr ''Org'')]])),
      Print [Lit ''Data saved to '', Lit ''organizations.json''],
      Print [Lit ''Organization: '', Val (PStr ''Org'')],
      HttpGet [Lit ''https://api.meraki.com/api/v1'', Lit ''/organizations/'', Val (PStr ''1''),
               Lit ''/networks'']
        [(''X-Cisco-Meraki-API-Key'', ''0123abcd''), (''Content-Type'', ''application/json'')],
      Print [Lit ''No networks found.'']] \<and>
   main (demo_world key_env no_statuses_server) =
     [Print [Lit ''Fetching Meraki organization data...''],
      HttpGet [Lit ''https://api.meraki.com/api/v1'', Lit ''/organizations'']
        [(''X-Cisco-Meraki-API-Key'', ''0123abcd''), (''Content-Type'', ''application/json'')],
      FileWrite ''organizations.json''
        (Json (PList [PDict [(''id'', PStr ''1''), (''name'', PStr ''Org'')]])),
      Print [Lit ''Data saved to '', Lit ''organizations.json''],
      Print [Lit ''Organization: '', Val (PStr ''Org'')],
      HttpGet [Lit ''https://api.meraki.com/api/v1'', Lit ''/organizations/'', Val (PStr ''1''),
               Lit ''/networks'']
        [(''X-Cisco-Meraki-API-Key'', ''0123abcd''), (''Content-Type'', ''application/json'')],
      FileWrite ''networks.json''
        (Json (PList [PDict [(''id'', PStr ''N1''), (''name'', PStr ''Net'')]])),
      Print [Lit ''Data saved to '', Lit ''networks.json''],
      Print [Lit ''Network: '', Val (PStr ''Net'')],
      HttpGet [Lit ''https://api.meraki.com/api/v1'', Lit ''/networks/'', Val (PStr ''N1''),
               Lit ''/devices'']
        [(''X-Cisco-Meraki-API-Key'', ''0123abcd''), (''Content-Type'', ''application/json'')],
      Print [Lit ''Devices: '', Num (NInt 1), Lit '' found''],
      FileWrite ''devices.json''
        (Json (PList [PDict [(''serial'', PStr ''A''), (''model'', PStr ''X'')]])),
      Print [Lit ''Data saved to '', Lit ''devices.json''],
      Print [Lit (CHR 0x0A # ''Fetching device status information...'')],
      HttpGet [Lit ''https://api.meraki.com/api/v1'', Lit ''/organizations/'', Val (PStr ''1''),
               Lit ''/devices/statuses'']
        [(''X-Cisco-Meraki-API-Key'', ''0123abcd''), (''Content-Type'', ''application/json'')],
      Print [Lit ''Unable to retrieve device status information.'']]"
proof -
  let ?h = "[(''X-Cisco-Meraki-API-Key'', ''0123abcd''), (''Content-Type'', ''application/json'')]"
  let ?org = "PDict [(''id'', PStr ''1''), (''name'', PStr ''Org'')]"
  let ?net = "PDict [(''id'', PStr ''N1''), (''name'', PStr ''Net'')]"
  let ?dev = "PDict [(''serial'', PStr ''A''), (''model'', PStr ''X'')]"
  let ?w0 = "demo_world empty_env demo_server"
  let ?w1 = "demo_world key_env no_networks_server"
  let ?w2 = "demo_world key_env no_statuses_server"
  have o0: "get_organizations ?w0 =
     (Inr (PList []), [Print [Lit ''Unexpected error: '',
             Exc (ValueError ''MERAKI_API_KEY not found in environment variables'')]])"
    by code_simp
  have a: "main ?w0 =
     [Print [Lit ''Fetching Meraki organization data...''],
      Print [Lit ''Unexpected error: '',
             Exc (ValueError ''MERAKI_API_KEY not found in environment variables'')],
      Print [Lit ''No organizations found or API error occurred.'']]"
    using main_short_circuits [of ?w0] o0 by simp
  have o1: "get_organizations ?w1 =
     (Inr (PList [?org]),
      [HttpGet [Lit ''https://api.meraki.com/api/v1'', Lit ''/organizations''] ?h])"
    by code_simp
  have s1: "save_to_file ?w1 (Json (PList [?org])) ''organizations.json'' =
     (Inr True, [FileWrite ''organizations.json'' (Json (PList [?org])),
                 Print [Lit ''Data saved to '', Lit ''organizations.json'']])"
    by code_simp
  have n1: "get_networks ?w1 (PStr ''1'') =
     (Inr (PList []),
      [HttpGet [Lit ''https://api.meraki.com/api/v1'', Lit ''/organizations/'', Val (PStr ''1''),
                Lit ''/networks''] ?h])"
    by code_simp
  have b: "main ?w1 =
     [Print [Lit ''Fetching Meraki organization data...''],
      HttpGet [Lit ''https://api.meraki.com/api/v1'', Lit ''/organizations''] ?h,
      FileWrite ''organizations.json'' (Json (PList [?org])),
      Print [Lit ''Data saved to '', Lit ''organizations.json''],
      Print [Lit ''Organization: '', Val (PStr ''Org'')],
      HttpGet [Lit ''https://api.meraki.com/api/v1'', Lit ''/organizations/'', Val (PStr ''1''),
               Lit ''/networks''] ?h,
      Print [Lit ''No networks found.'']]"
    using main_short_circuits [of ?w1 "PList [?org]" ?org "PStr ''Org''" "PStr ''1''"] o1 s1 n1 by simp
  have o2: "get_organizations ?w2 =
     (Inr (PList [?org]),
      [HttpGet [Lit ''https://api.meraki.com/api/v1'', Lit ''/organizations''] ?h])"
    by code_simp
  have s2: "save_to_file ?w2 (Json (PList [?org])) ''organizations.json'' =
     (Inr True, [FileWrite ''organizations.json'' (Json (PList [?org])),
                 Print [Lit ''Data saved to '', Lit ''organizations.json'']])"
    by code_simp
  have n2: "get_networks ?w2 (PStr ''1'') =
     (Inr (PList [?net]),
      [HttpGet [Lit ''https://api.meraki.com/api/v1'', Lit ''/organizations/'', Val (PStr ''1''),
                Lit ''/networks''] ?h])"
    by code_simp
  have sn2: "save_to_file ?w2 (Json (PList [?net])) ''networks.json'' =
     (Inr True, [FileWrite ''networks.json'' (Json (PList [?net])),
                 Print [Lit ''Data saved to '', Lit ''networks.json'']])"
    by code_simp
  have d2: "get_network_inventory ?w2 (PStr ''N1'') =
     (Inr (PList [?dev]),
      [HttpGet [Lit ''https://api.meraki.com/api/v1'', Lit ''/networks/'', Val (PStr ''N1''),
                Lit ''/devices''] ?h])"
    by code_simp
  have sd2: "save_to_file ?w2 (Json (PList [?dev])) ''devices.json'' =
     (Inr True, [FileWrite ''devices.json'' (Json (PList [?dev])),
                 Print [Lit ''Data saved to '', Lit ''devices.json'']])"
    by code_simp
  have t2: "get_device_statuses ?w2 (PStr ''1'') =
     (Inr (PList []),
      [HttpGet [Lit ''https://api.meraki.com/api/v1'', Lit ''/organizations/'', Val (PStr ''1''),
                Lit ''/devices/statuses''] ?h])"
    by code_simp
  have c: "main ?w2 =
     [Print [Lit ''Fetching Meraki organization data...''],
      HttpGet [Lit ''https://api.meraki.com/api/v1'', Lit ''/organizations''] ?h,
      FileWrite ''organizations.json'' (Json (PList [?org])),
      Print [Lit ''Data saved to '', Lit ''organizations.json''],
      Print [Lit ''Organization: '', Val (PStr ''Org'')],
      HttpGet [Lit ''https://api.meraki.com/api/v1'', Lit ''/organizations/'', Val (PStr ''1''),
               Lit ''/networks''] ?h,
      FileWrite ''networks.json'' (Json (PList [?net])),
      Print [Lit ''Data saved to '', Lit ''networks.json''],
      Print [Lit ''Network: '', Val (PStr ''Net'')],
      HttpGet [Lit ''https://api.meraki.com/api/v1'', Lit ''/networks/'', Val (PStr ''N1''),
               Lit ''/devices''] ?h,
      Print [Lit ''Devices: '', Num (NInt 1), Lit '' found''],
      FileWrite ''devices.json'' (Json (PList [?dev])),
      Print [Lit ''Data saved to '', Lit ''devices.json''],
      Print [Lit (CHR 0x0A # ''Fetching device status information...'')],
      HttpGet [Lit ''https://api.meraki.com/api/v1'', Lit ''/organizations/'', Val (PStr ''1''),
               Lit ''/devices/statuses''] ?h,
      Print [Lit ''Unable to retrieve device status information.'']]"
    using main_short_circuits [of ?w2 "PList [?org]" ?org "PStr ''Org''" "PStr ''1''" "PList [?net]" ?net
                    "PStr ''Net''" "PStr ''N1''" "PList [?dev]" 1]
      o2 s2 n2 sn2 d2 sd2 t2 by simp
  from a b c show ?thesis by simp
qed

end
